theory Spec2Isabelle
  imports Main
begin

section \<open>Dates\<close>

text \<open>
  A JavaScript \<open>Date\<close> is read in local civil time on the proleptic Gregorian calendar:
  full year, month index (0 = January), day of the month (from 1) and the milliseconds
  elapsed since local midnight. The values of the type are the valid dates; a date
  computation that can give \<open>Invalid Date\<close> returns a \<open>DateObject\<close>, defined below.
\<close>

record Date =
  fullYear :: int
  monthIndex :: nat
  dayOfMonth :: nat
  msOfDay :: nat

definition getFullYear :: "Date \<Rightarrow> int" where
  "getFullYear d = fullYear d"

definition getMonth :: "Date \<Rightarrow> nat" where
  "getMonth d = monthIndex d"

definition isLeapYear :: "int \<Rightarrow> bool" where
  "isLeapYear y = (y mod 400 = 0 \<or> (y mod 4 = 0 \<and> y mod 100 \<noteq> 0))"

text \<open>Number of days of month \<open>m\<close> (0 = January) of year \<open>y\<close>.\<close>

definition daysOfMonth :: "int \<Rightarrow> nat \<Rightarrow> nat" where
  "daysOfMonth y m =
     (if m = 1 then (if isLeapYear y then 29 else 28)
      else if m = 3 \<or> m = 5 \<or> m = 8 \<or> m = 10 then 30
      else 31)"

text \<open>Days from 1970-01-01 to the first of January of year \<open>y\<close>.\<close>

definition daysBeforeYear :: "int \<Rightarrow> int" where
  "daysBeforeYear y =
     365 * (y - 1) + (y - 1) div 4 - (y - 1) div 100 + (y - 1) div 400 - 719162"

definition daysBeforeMonth :: "int \<Rightarrow> nat \<Rightarrow> nat" where
  "daysBeforeMonth y m = sum_list (map (daysOfMonth y) [0..<m])"

text \<open>The day number of a date: whole days since 1970-01-01.\<close>

definition dayNumber :: "Date \<Rightarrow> int" where
  "dayNumber d =
     daysBeforeYear (fullYear d) + int (daysBeforeMonth (fullYear d) (monthIndex d))
       + int (dayOfMonth d) - 1"

text \<open>\<open>getTime\<close>: milliseconds since the epoch, on the local time line.\<close>

definition getTime :: "Date \<Rightarrow> int" where
  "getTime d = dayNumber d * 86400000 + int (msOfDay d)"

text \<open>
  The time value of a \<open>Date\<close> lies within 8.64e15 milliseconds of the epoch, and a
  computation that leaves this range gives \<open>Invalid Date\<close>. Time values are counted on
  the local clock; its offset from UTC is not modelled.
\<close>

definition maxTime :: int where
  "maxTime = 8640000000000000"

definition inDateRange :: "Date \<Rightarrow> bool" where
  "inDateRange d = (- maxTime \<le> getTime d \<and> getTime d \<le> maxTime)"

datatype DateObject = InvalidDate | ValidDate Date

definition timeClip :: "Date \<Rightarrow> DateObject" where
  "timeClip d = (if inDateRange d then ValidDate d else InvalidDate)"

text \<open>A number that may be \<open>NaN\<close>, and the two comparisons of the loops.\<close>

datatype Number = NaN | Finite nat

fun jsLess :: "nat \<Rightarrow> Number \<Rightarrow> bool" where
  "jsLess i NaN = False"
| "jsLess i (Finite n) = (i < n)"

fun jsLessEq :: "nat \<Rightarrow> Number \<Rightarrow> bool" where
  "jsLessEq i NaN = False"
| "jsLessEq i (Finite n) = (i \<le> n)"

text \<open>
  Where daylight saving skips local midnight, the day starts later on the local clock. The
  environment gives, for a year, a month index and a day, the milliseconds after 00:00 at
  which that day starts: 0 on every day whose midnight exists.
\<close>

type_synonym DayStart = "int \<Rightarrow> nat \<Rightarrow> nat \<Rightarrow> nat"

text \<open>\<open>setHours(0, 0, 0, 0)\<close>\<close>

definition setHoursZero :: "DayStart \<Rightarrow> Date \<Rightarrow> DateObject" where
  "setHoursZero dayStart d =
     timeClip (d\<lparr>msOfDay := dayStart (fullYear d) (monthIndex d) (dayOfMonth d)\<rparr>)"

text \<open>
  \<open>new Date(year, monthIndex, day)\<close>, for a month index and a day that are not negative:
  a year from 0 to 99 stands for 1900 + year, a month index beyond 11 carries into the
  year, a day beyond the end of the month carries into the following months, day 0 is the
  last day of the month before. The time is the start of the local day, and the result is
  \<open>Invalid Date\<close> outside the range of time values.
\<close>

function carryDay :: "DayStart \<Rightarrow> int \<Rightarrow> nat \<Rightarrow> nat \<Rightarrow> Date" where
  "carryDay dayStart y m d =
     (if daysOfMonth y m < d
      then (if 11 \<le> m then carryDay dayStart (y + 1) 0 (d - daysOfMonth y m)
            else carryDay dayStart y (Suc m) (d - daysOfMonth y m))
      else \<lparr>fullYear = y, monthIndex = m, dayOfMonth = d, msOfDay = dayStart y m d\<rparr>)"
  by pat_completeness auto
termination
  by (relation "measure (\<lambda>(dayStart, y, m, d). d)") (auto simp: daysOfMonth_def)

definition newDate :: "DayStart \<Rightarrow> int \<Rightarrow> nat \<Rightarrow> nat \<Rightarrow> DateObject" where
  "newDate dayStart year m day =
     (let yr = (if 0 \<le> year \<and> year \<le> 99 then 1900 + year else year);
          ym = yr + int (m div 12);
          mn = m mod 12
      in timeClip
           (if day = 0
            then (if mn = 0
                  then \<lparr>fullYear = ym - 1, monthIndex = 11,
                        dayOfMonth = daysOfMonth (ym - 1) 11,
                        msOfDay = dayStart (ym - 1) 11 (daysOfMonth (ym - 1) 11)\<rparr>
                  else \<lparr>fullYear = ym, monthIndex = mn - 1,
                        dayOfMonth = daysOfMonth ym (mn - 1),
                        msOfDay = dayStart ym (mn - 1) (daysOfMonth ym (mn - 1))\<rparr>)
            else carryDay dayStart ym mn day))"

subsection \<open>The date-fns functions the component calls\<close>

text \<open>
  \<open>getDaysInMonth\<close> sets a fresh \<open>Date\<close> to day 0 of the following month, which is the
  last day of the month, then to the start of that day, and returns its day of the month:
  \<open>NaN\<close> when that day is beyond the range of time values.
\<close>

definition getDaysInMonth :: "DayStart \<Rightarrow> Date \<Rightarrow> Number" where
  "getDaysInMonth dayStart d =
     (case timeClip \<lparr>fullYear = fullYear d, monthIndex = monthIndex d,
                     dayOfMonth = daysOfMonth (fullYear d) (monthIndex d), msOfDay = 0\<rparr> of
        InvalidDate \<Rightarrow> NaN
      | ValidDate lastDayOfMonth \<Rightarrow>
          (case setHoursZero dayStart lastDayOfMonth of
             InvalidDate \<Rightarrow> NaN
           | ValidDate l \<Rightarrow> Finite (dayOfMonth l)))"

text \<open>
  \<open>startOfMonth\<close> is \<open>setDate(1)\<close>, which keeps the time of the day, followed by
  \<open>setHours(0, 0, 0, 0)\<close>; once the date is invalid it stays so.
\<close>

definition startOfMonth :: "DayStart \<Rightarrow> Date \<Rightarrow> DateObject" where
  "startOfMonth dayStart d =
     (case timeClip (d\<lparr>dayOfMonth := 1\<rparr>) of
        InvalidDate \<Rightarrow> InvalidDate
      | ValidDate d1 \<Rightarrow> setHoursZero dayStart d1)"

text \<open>Day of the week, 0 = Sunday; 1970-01-01 was a Thursday.\<close>

definition weekDay :: "Date \<Rightarrow> nat" where
  "weekDay d = nat ((dayNumber d + 4) mod 7)"

fun getDay :: "DateObject \<Rightarrow> Number" where
  "getDay InvalidDate = NaN"
| "getDay (ValidDate d) = Finite (weekDay d)"

definition isAfter :: "Date \<Rightarrow> Date \<Rightarrow> bool" where
  "isAfter d dateToCompare = (getTime dateToCompare < getTime d)"

definition isSameDay :: "Date \<Rightarrow> Date \<Rightarrow> bool" where
  "isSameDay l r =
     (fullYear l = fullYear r \<and> monthIndex l = monthIndex r \<and> dayOfMonth l = dayOfMonth r)"

section \<open>The component's data\<close>

datatype Modes = Duo | Single | Range

text \<open>
  An optional property of an object: the key is absent, present with the value
  \<open>undefined\<close>, or present with a value.
\<close>

datatype 'a property = Missing | Undefined | Defined 'a

fun readProp :: "'a property \<Rightarrow> 'a option" where
  "readProp Missing = None"
| "readProp Undefined = None"
| "readProp (Defined x) = Some x"

record DateRangeValue =
  fromKey :: "Date property"
  toKey :: "Date property"

datatype DateValue = DateV Date | RangeV DateRangeValue

text \<open>
  The props of \<open>DatePicker\<close>. A handler prop is modelled by whether the consumer passed
  it; \<open>className\<close> and \<open>placeholder\<close> only reach the markup and are left out.
\<close>

record Props =
  mode :: Modes
  defaultValue :: "DateValue option"
  onValueChange :: bool
  onReset :: bool
  onModeChange :: bool

text \<open>What the component calls on its consumer, in the order of the calls.\<close>

datatype Event =
    ValueChange "DateValue option"
  | ModeChange Modes
  | Reset

datatype View = Days | Years

record State =
  selectedDate :: "DateValue option"
  currentMonth :: DateValue
  isOpen :: bool
  view :: View
  isRangeMode :: bool
  rangeStart :: "Date option"
  rangeEnd :: "Date option"
  rangeHover :: "Date option"

text \<open>\<open>onValueChange?.(v)\<close>, \<open>onModeChange?.(m)\<close>: a call only if the handler was passed.\<close>

definition callValueChange :: "Props \<Rightarrow> DateValue option \<Rightarrow> Event list" where
  "callValueChange p v = (if onValueChange p then [ValueChange v] else [])"

definition callModeChange :: "Props \<Rightarrow> Modes \<Rightarrow> Event list" where
  "callModeChange p m = (if onModeChange p then [ModeChange m] else [])"

text \<open>
  The state of the first render: \<open>value\<close> is the controlled value prop and \<open>now\<close> is
  what \<open>new Date()\<close> returns.
\<close>

definition initialState :: "Props \<Rightarrow> DateValue option \<Rightarrow> Date \<Rightarrow> State" where
  "initialState p val now =
     \<lparr>selectedDate = defaultValue p,
      currentMonth =
        (case val of Some v \<Rightarrow> v
         | None \<Rightarrow> (case defaultValue p of Some v \<Rightarrow> v | None \<Rightarrow> DateV now)),
      isOpen = False,
      view = Days,
      isRangeMode = (mode p = Range),
      rangeStart = None,
      rangeEnd = None,
      rangeHover = None\<rparr>"

section \<open>The value-synchronisation effect\<close>

datatype JsType = TObject | TOther

fun typeof :: "DateValue \<Rightarrow> JsType" where
  "typeof (DateV d) = TObject"
| "typeof (RangeV r) = TObject"

text \<open>\<open>'from' in value\<close>: a \<open>Date\<close> has no such key.\<close>

fun hasFromKey :: "DateValue \<Rightarrow> bool" where
  "hasFromKey (DateV d) = False"
| "hasFromKey (RangeV r) = (fromKey r \<noteq> Missing)"

fun valueFrom :: "DateValue \<Rightarrow> Date option" where
  "valueFrom (DateV d) = None"
| "valueFrom (RangeV r) = readProp (fromKey r)"

fun valueTo :: "DateValue \<Rightarrow> Date option" where
  "valueTo (DateV d) = None"
| "valueTo (RangeV r) = readProp (toKey r)"

fun asDate :: "DateValue \<Rightarrow> Date option" where
  "asDate (DateV d) = Some d"
| "asDate (RangeV r) = None"

text \<open>The effect that runs when the \<open>value\<close> prop changes (and after the first render).\<close>

definition syncValue :: "DateValue option \<Rightarrow> State \<Rightarrow> State" where
  "syncValue val s =
     (case val of
        None \<Rightarrow> s
      | Some v \<Rightarrow>
          if typeof v \<noteq> TObject then s\<lparr>rangeStart := asDate v, rangeEnd := None\<rparr>
          else if hasFromKey v then s\<lparr>rangeStart := valueFrom v, rangeEnd := valueTo v\<rparr>
          else s)"

section \<open>Selecting and hovering days\<close>

definition handleSelect :: "Props \<Rightarrow> Date \<Rightarrow> State \<Rightarrow> State \<times> Event list" where
  "handleSelect p day s =
     (if \<not> isRangeMode s then
        (s\<lparr>selectedDate := Some (DateV day), currentMonth := DateV day, isOpen := False\<rparr>,
         callValueChange p (Some (DateV day)))
      else if isRangeMode s then
        (if rangeStart s = None \<or> (rangeStart s \<noteq> None \<and> rangeEnd s \<noteq> None) then
           (s\<lparr>rangeStart := Some day, rangeEnd := None, rangeHover := None\<rparr>, [])
         else if rangeStart s \<noteq> None \<and> rangeEnd s = None then
           (case rangeStart s of
              None \<Rightarrow> (s, [])
            | Some start \<Rightarrow>
                (let isAfterStart = isAfter day start
                 in ((if isAfterStart then s\<lparr>rangeEnd := Some day\<rparr>
                      else s\<lparr>rangeEnd := Some start, rangeStart := Some day\<rparr>)
                       \<lparr>isOpen := False\<rparr>,
                     callValueChange p
                       (Some (RangeV
                          \<lparr>fromKey = Defined (if isAfterStart then start else day),
                           toKey = Defined (if isAfterStart then day else start)\<rparr>)))))
         else (s, []))
      else (s, []))"

definition handleDayHover :: "Date \<Rightarrow> State \<Rightarrow> State" where
  "handleDayHover day s =
     (if isRangeMode s \<and> rangeStart s \<noteq> None \<and> rangeEnd s = None
      then s\<lparr>rangeHover := Some day\<rparr> else s)"

text \<open>The boundary markers of the day buttons.\<close>

definition isRangeStart :: "State \<Rightarrow> Date \<Rightarrow> bool" where
  "isRangeStart s day =
     (if \<not> isRangeMode s \<or> rangeStart s = None then False
      else (case rangeStart s of None \<Rightarrow> False | Some start \<Rightarrow> isSameDay day start))"

definition isRangeEnd :: "State \<Rightarrow> Date \<Rightarrow> bool" where
  "isRangeEnd s day =
     (if \<not> isRangeMode s \<or> rangeEnd s = None then False
      else (case rangeEnd s of None \<Rightarrow> False | Some endDay \<Rightarrow> isSameDay day endDay))"

section \<open>Reset and the mode switch\<close>

definition handleReset :: "Props \<Rightarrow> State \<Rightarrow> State \<times> Event list" where
  "handleReset p s =
     (if \<not> onReset p then (s, [])
      else if \<not> isRangeMode s then
        (s\<lparr>selectedDate := None\<rparr>, callValueChange p None @ [Reset])
      else
        (s\<lparr>rangeStart := None, rangeEnd := None, rangeHover := None\<rparr>,
         callValueChange p (Some (RangeV \<lparr>fromKey = Undefined, toKey = Undefined\<rparr>)) @ [Reset]))"

text \<open>The \<open>onCheckedChange\<close> handler of the switch.\<close>

definition onCheckedChange :: "Props \<Rightarrow> bool \<Rightarrow> State \<Rightarrow> State \<times> Event list" where
  "onCheckedChange p isChecked s =
     (if isChecked then
        ((case rangeStart s of
            None \<Rightarrow> s\<lparr>isRangeMode := isChecked\<rparr>
          | Some start \<Rightarrow> s\<lparr>isRangeMode := isChecked, currentMonth := DateV start\<rparr>),
         callValueChange p
           (case (rangeStart s, rangeEnd s) of
              (Some start, Some endDay) \<Rightarrow> Some (RangeV \<lparr>fromKey = Defined start, toKey = Defined endDay\<rparr>)
            | _ \<Rightarrow> None)
         @ callModeChange p Range)
      else
        ((case selectedDate s of
            None \<Rightarrow> s\<lparr>isRangeMode := isChecked\<rparr>
          | Some sel \<Rightarrow> s\<lparr>isRangeMode := isChecked, currentMonth := sel\<rparr>),
         callValueChange p (selectedDate s) @ callModeChange p Single))"

text \<open>The switch is rendered, and can be flipped, only when the \<open>mode\<close> prop is \<open>duo\<close>.\<close>

definition setRangeMode :: "Props \<Rightarrow> bool \<Rightarrow> State \<Rightarrow> State \<times> Event list" where
  "setRangeMode p isChecked s =
     (if mode p = Duo then onCheckedChange p isChecked s else (s, []))"

section \<open>The calendar grid\<close>

text \<open>\<open>currentMonth instanceof Date ? currentMonth : new Date()\<close>\<close>

fun cursorDate :: "Date \<Rightarrow> DateValue \<Rightarrow> Date" where
  "cursorDate now (DateV d) = d"
| "cursorDate now (RangeV r) = now"

text \<open>
  The two loops of \<open>calendarDays\<close>; a cell is \<open>null\<close> or a \<open>Date\<close> object. A loop
  whose bound is \<open>NaN\<close> does not run.
\<close>

function emptyCells ::
  "nat \<Rightarrow> Number \<Rightarrow> DateObject option list \<Rightarrow> DateObject option list" where
  "emptyCells i startDay days =
     (if jsLess i startDay then emptyCells (Suc i) startDay (days @ [None]) else days)"
  by pat_completeness auto
termination
  by (relation "measure (\<lambda>(i, startDay, days).
        case startDay of NaN \<Rightarrow> 0 | Finite n \<Rightarrow> n - i)")
    (auto split: Number.splits)

function dayCells ::
  "DayStart \<Rightarrow> int \<Rightarrow> nat \<Rightarrow> nat \<Rightarrow> Number \<Rightarrow> DateObject option list
     \<Rightarrow> DateObject option list" where
  "dayCells dayStart y m day daysInMonth days =
     (if jsLessEq day daysInMonth
      then dayCells dayStart y m (Suc day) daysInMonth
             (days @ [Some (newDate dayStart y m day)])
      else days)"
  by pat_completeness auto
termination
  by (relation "measure (\<lambda>(dayStart, y, m, day, daysInMonth, days).
        case daysInMonth of NaN \<Rightarrow> 0 | Finite n \<Rightarrow> Suc n - day)")
    (auto split: Number.splits)

definition calendarDays :: "DayStart \<Rightarrow> Date \<Rightarrow> DateValue \<Rightarrow> DateObject option list" where
  "calendarDays dayStart now cur =
     (let daysInMonth = getDaysInMonth dayStart (cursorDate now cur);
          startDay = getDay (startOfMonth dayStart (cursorDate now cur));
          days = emptyCells 0 startDay []
      in dayCells dayStart (getFullYear (cursorDate now cur)) (getMonth (cursorDate now cur))
           1 daysInMonth days)"

section \<open>Notions used in the statements\<close>

text \<open>The payloads of the \<open>onValueChange\<close> calls among the calls made.\<close>

fun valueChanges :: "Event list \<Rightarrow> DateValue option list" where
  "valueChanges [] = []"
| "valueChanges (ValueChange v # es) = v # valueChanges es"
| "valueChanges (ModeChange m # es) = valueChanges es"
| "valueChanges (Reset # es) = valueChanges es"

text \<open>The pointer entering a sequence of day buttons, one after the other.\<close>

fun hoverDays :: "Date list \<Rightarrow> State \<Rightarrow> State" where
  "hoverDays [] s = s"
| "hoverDays (day # days) s = hoverDays days (handleDayHover day s)"

text \<open>
  The boundary markers as the specification words them: same-day equality against the
  committed endpoint, or against the provisional endpoint of a selection in progress. The
  provisional interval is the one the hover preview shows, from the earlier to the later of
  the start and the hovered day.
\<close>

definition specRangeStart :: "State \<Rightarrow> Date \<Rightarrow> bool" where
  "specRangeStart s day =
     (case (rangeStart s, rangeEnd s) of
        (Some start, Some endDay) \<Rightarrow> isSameDay day start
      | (Some start, None) \<Rightarrow>
          (case rangeHover s of
             None \<Rightarrow> isSameDay day start
           | Some hover \<Rightarrow> isSameDay day (if isAfter hover start then start else hover))
      | (None, _) \<Rightarrow> False)"

definition specRangeEnd :: "State \<Rightarrow> Date \<Rightarrow> bool" where
  "specRangeEnd s day =
     (case (rangeStart s, rangeEnd s) of
        (_, Some endDay) \<Rightarrow> isSameDay day endDay
      | (Some start, None) \<Rightarrow>
          (case rangeHover s of
             None \<Rightarrow> False
           | Some hover \<Rightarrow> isSameDay day (if isAfter hover start then hover else start))
      | (None, None) \<Rightarrow> False)"

text \<open>What the user has selected: the single value, the two range endpoints and the hover.\<close>

definition selections ::
  "State \<Rightarrow> DateValue option \<times> Date option \<times> Date option \<times> Date option" where
  "selections s = (selectedDate s, rangeStart s, rangeEnd s, rangeHover s)"

text \<open>
  The flip to single as the specification words it: the single value if one is stored,
  nothing otherwise.
\<close>

definition specSingleValue :: "State \<Rightarrow> DateValue option" where
  "specSingleValue s =
     (case selectedDate s of
        Some (DateV d) \<Rightarrow> Some (DateV d)
      | Some (RangeV r) \<Rightarrow> None
      | None \<Rightarrow> None)"





text \<open>The environment in which every local midnight exists.\<close>

abbreviation noGap :: DayStart where
  "noGap \<equiv> (\<lambda>y m d. 0)"

text \<open>Local midnight of a civil date, and the props of the range and duo usages in \<open>App.tsx\<close>.\<close>

abbreviation civil :: "int \<Rightarrow> nat \<Rightarrow> nat \<Rightarrow> Date" where
  "civil y m d \<equiv> \<lparr>fullYear = y, monthIndex = m, dayOfMonth = d, msOfDay = 0\<rparr>"

abbreviation rangeProps :: Props where
  "rangeProps \<equiv> \<lparr>mode = Range, defaultValue = None, onValueChange = True,
     onReset = False, onModeChange = False\<rparr>"

abbreviation duoProps :: Props where
  "duoProps \<equiv> \<lparr>mode = Duo, defaultValue = None, onValueChange = True,
     onReset = False, onModeChange = True\<rparr>"

text \<open>
  The opened panel of the range usage, showing March 2024, and of the duo usage, showing
  January 2024.
\<close>

abbreviation rangePanel :: State where
  "rangePanel \<equiv> (initialState rangeProps None (civil 2024 2 1))\<lparr>isOpen := True\<rparr>"

abbreviation duoPanel :: State where
  "duoPanel \<equiv> (initialState duoProps None (civil 2024 0 1))\<lparr>isOpen := True\<rparr>"

text \<open>The duo usage with a range as its \<open>defaultValue\<close>, and its opened panel.\<close>

abbreviation duoRangeProps :: Props where
  "duoRangeProps \<equiv> \<lparr>mode = Duo,
     defaultValue = Some (RangeV \<lparr>fromKey = Defined (civil 2024 2 5),
                                  toKey = Defined (civil 2024 2 10)\<rparr>),
     onValueChange = True, onReset = False, onModeChange = True\<rparr>"

abbreviation duoRangePanel :: State where
  "duoRangePanel \<equiv> (initialState duoRangeProps None (civil 2024 0 1))\<lparr>isOpen := True\<rparr>"

declare emptyCells.simps [simp del] dayCells.simps [simp del] carryDay.simps [simp del]

section \<open>Facts about dates\<close>



text \<open>The leap years: every fourth year, but of the century years only every fourth.\<close>

lemma february_lengths:
  "daysOfMonth 2023 1 = 28" "daysOfMonth 2024 1 = 29"
  "daysOfMonth 1900 1 = 28" "daysOfMonth 2000 1 = 29"
  by code_simp+







lemma newDate_two_digit_year: "newDate noGap 50 0 1 = ValidDate (civil 1950 0 1)"
  by code_simp








section \<open>The calendar grid\<close>

lemma emptyCells_NaN: "emptyCells i NaN days = days"
  by (subst emptyCells.simps) simp


lemma dayCells_NaN: "dayCells dayStart y m day NaN days = days"
  by (subst dayCells.simps) simp










text \<open>
  At the start of the range of time values, April of the year -271821: the first of the
  month is before the range, so that there is no leading cell, and the cells of the days
  before the 20th are \<open>Invalid Date\<close>.
\<close>

lemma calendarDays_at_range_start:
  "calendarDays noGap (civil 2026 10 3) (DateV (civil (- 271821) 3 20))
     = replicate 19 (Some InvalidDate)
       @ map (\<lambda>d. Some (ValidDate (civil (- 271821) 3 d))) [20..<Suc 30]"
  by code_simp

section \<open>The two clicks of a range selection\<close>

lemma march_order:
  "isAfter (civil 2024 2 5) (civil 2024 2 10) = False"
  "isAfter (civil 2024 2 10) (civil 2024 2 5) = True"
  by code_simp+

text \<open>
  C7. In range mode, a click on a day while no start is selected, or while both endpoints
  are, makes the day the start, leaves the end unset and clears the hover preview; the
  handler calls nothing on the consumer and every other part of the state, the open panel
  among them, is as before.
\<close>

theorem first_click_starts_range:
  assumes "isRangeMode s"
    and "rangeStart s = None \<or> (rangeStart s \<noteq> None \<and> rangeEnd s \<noteq> None)"
  shows "handleSelect p day s
           = (s\<lparr>rangeStart := Some day, rangeEnd := None, rangeHover := None\<rparr>, [])"
  using assms by (auto simp: handleSelect_def)

theorem first_click_starts_range_witness:
  "handleSelect rangeProps (civil 2024 2 7)
     (rangePanel\<lparr>rangeStart := Some (civil 2024 2 5), rangeEnd := Some (civil 2024 2 10),
                 rangeHover := Some (civil 2024 2 9)\<rparr>)
   = (rangePanel\<lparr>rangeStart := Some (civil 2024 2 7)\<rparr>, [])
   \<and> isOpen (fst (handleSelect rangeProps (civil 2024 2 7)
     (rangePanel\<lparr>rangeStart := Some (civil 2024 2 5), rangeEnd := Some (civil 2024 2 10),
                 rangeHover := Some (civil 2024 2 9)\<rparr>)))"
  using first_click_starts_range
    [where s = "rangePanel\<lparr>rangeStart := Some (civil 2024 2 5),
                  rangeEnd := Some (civil 2024 2 10), rangeHover := Some (civil 2024 2 9)\<rparr>"
       and p = rangeProps and day = "civil 2024 2 7"]
  by (simp add: initialState_def)

text \<open>
  C2. In range mode, starting with no start selected or with both endpoints selected, a
  click on \<open>a\<close> calls nothing, and the click on \<open>b\<close> that follows commits the two days
  in order of time, whatever the order of the clicks: the start is the earlier one, the end
  the later one, that range is what \<open>onValueChange\<close> receives, and the panel is closed.
\<close>

theorem range_clicks_ordered:
  assumes "isRangeMode s"
    and "rangeStart s = None \<or> (rangeStart s \<noteq> None \<and> rangeEnd s \<noteq> None)"
  shows "snd (handleSelect p a s) = []
       \<and> (let s1 = fst (handleSelect p a s);
               s2 = fst (handleSelect p b s1);
               lo = (if isAfter b a then a else b);
               hi = (if isAfter b a then b else a)
          in rangeStart s2 = Some lo \<and> rangeEnd s2 = Some hi
           \<and> getTime lo \<le> getTime hi
           \<and> snd (handleSelect p b s1)
               = callValueChange p (Some (RangeV \<lparr>fromKey = Defined lo, toKey = Defined hi\<rparr>))
           \<and> \<not> isOpen s2)"
  using assms by (auto simp: handleSelect_def Let_def isAfter_def)

text \<open>Clicking 2024-03-10 and then 2024-03-05.\<close>

theorem range_clicks_ordered_witness:
  "isRangeMode rangePanel
   \<and> rangeStart rangePanel = None
   \<and> snd (handleSelect rangeProps (civil 2024 2 10)
            rangePanel) = []
   \<and> rangeStart (fst (handleSelect rangeProps (civil 2024 2 5)
        (fst (handleSelect rangeProps (civil 2024 2 10)
           rangePanel))))
       = Some (civil 2024 2 5)
   \<and> rangeEnd (fst (handleSelect rangeProps (civil 2024 2 5)
        (fst (handleSelect rangeProps (civil 2024 2 10)
           rangePanel))))
       = Some (civil 2024 2 10)
   \<and> snd (handleSelect rangeProps (civil 2024 2 5)
        (fst (handleSelect rangeProps (civil 2024 2 10)
           rangePanel)))
       = [ValueChange (Some (RangeV
            \<lparr>fromKey = Defined (civil 2024 2 5), toKey = Defined (civil 2024 2 10)\<rparr>))]
   \<and> \<not> isOpen (fst (handleSelect rangeProps (civil 2024 2 5)
        (fst (handleSelect rangeProps (civil 2024 2 10)
           rangePanel))))"
  using range_clicks_ordered
    [of rangePanel
        rangeProps "civil 2024 2 10" "civil 2024 2 5"]
  by (simp add: Let_def initialState_def march_order callValueChange_def)

section \<open>Hovering\<close>

lemma handleDayHover_only_hover:
  "(handleDayHover day s)\<lparr>rangeHover := h\<rparr> = s\<lparr>rangeHover := h\<rparr>"
  by (simp add: handleDayHover_def)

lemma hoverDays_only_hover:
  "(hoverDays days s)\<lparr>rangeHover := h\<rparr> = s\<lparr>rangeHover := h\<rparr>"
proof (induction days arbitrary: s)
  case Nil
  show ?case by simp
next
  case (Cons day days)
  have "(hoverDays (day # days) s)\<lparr>rangeHover := h\<rparr>
          = (handleDayHover day s)\<lparr>rangeHover := h\<rparr>"
    using Cons.IH [of "handleDayHover day s"] by simp
  then show ?case by (simp add: handleDayHover_only_hover)
qed

lemma hoverDays_ignored:
  "\<not> isRangeMode s \<or> rangeStart s = None \<or> rangeEnd s \<noteq> None \<Longrightarrow> hoverDays days s = s"
  by (induction days) (auto simp: handleDayHover_def)

lemma handleSelect_hover_irrelevant:
  "snd (handleSelect p day (s\<lparr>rangeHover := h\<rparr>)) = snd (handleSelect p day s)
   \<and> (fst (handleSelect p day (s\<lparr>rangeHover := h\<rparr>)))\<lparr>rangeHover := x\<rparr>
       = (fst (handleSelect p day s))\<lparr>rangeHover := x\<rparr>"
  by (auto simp: handleSelect_def Let_def split: option.splits)

lemma hoverDays_as_update:
  "hoverDays days s = s\<lparr>rangeHover := rangeHover (hoverDays days s)\<rparr>"
proof -
  have "hoverDays days s = (hoverDays days s)\<lparr>rangeHover := rangeHover (hoverDays days s)\<rparr>"
    by simp
  also have "\<dots> = s\<lparr>rangeHover := rangeHover (hoverDays days s)\<rparr>"
    by (rule hoverDays_only_hover)
  finally show ?thesis .
qed

text \<open>
  C8. Any sequence of hovers changes nothing of the state but \<open>rangeHover\<close>, and changes
  nothing at all outside range mode, while no start is selected or once both endpoints are.
  The click that follows the hovers makes the same calls on the consumer as without them
  and leaves the same state, \<open>rangeHover\<close> apart.
\<close>

theorem hover_changes_preview_only:
  "(hoverDays days s)\<lparr>rangeHover := rangeHover s\<rparr> = s
   \<and> (\<not> isRangeMode s \<or> rangeStart s = None \<or> rangeEnd s \<noteq> None \<longrightarrow> hoverDays days s = s)
   \<and> snd (handleSelect p day (hoverDays days s)) = snd (handleSelect p day s)
   \<and> (fst (handleSelect p day (hoverDays days s)))\<lparr>rangeHover := h\<rparr>
       = (fst (handleSelect p day s))\<lparr>rangeHover := h\<rparr>"
proof -
  have a: "(hoverDays days s)\<lparr>rangeHover := rangeHover s\<rparr> = s"
    using hoverDays_only_hover [where days = days and s = s and h = "rangeHover s"] by simp
  have b: "\<not> isRangeMode s \<or> rangeStart s = None \<or> rangeEnd s \<noteq> None \<longrightarrow> hoverDays days s = s"
    using hoverDays_ignored [where days = days and s = s] by blast
  have c: "snd (handleSelect p day (hoverDays days s)) = snd (handleSelect p day s)
     \<and> (fst (handleSelect p day (hoverDays days s)))\<lparr>rangeHover := h\<rparr>
         = (fst (handleSelect p day s))\<lparr>rangeHover := h\<rparr>"
    using handleSelect_hover_irrelevant
        [where p = p and day = day and s = s and h = "rangeHover (hoverDays days s)" and x = h]
      hoverDays_as_update [where days = days and s = s] by simp
  from a b c show ?thesis by blast
qed

theorem hover_changes_preview_only_witness:
  "rangeHover (hoverDays [civil 2024 2 12, civil 2024 2 3, civil 2024 2 7]
      (fst (handleSelect rangeProps (civil 2024 2 10) rangePanel))) = Some (civil 2024 2 7)
   \<and> rangeStart (hoverDays [civil 2024 2 12, civil 2024 2 3, civil 2024 2 7]
      (fst (handleSelect rangeProps (civil 2024 2 10) rangePanel))) = Some (civil 2024 2 10)
   \<and> hoverDays [civil 2024 2 12, civil 2024 2 3, civil 2024 2 7] rangePanel = rangePanel
   \<and> snd (handleSelect rangeProps (civil 2024 2 5)
        (hoverDays [civil 2024 2 12, civil 2024 2 3, civil 2024 2 7]
          (fst (handleSelect rangeProps (civil 2024 2 10) rangePanel))))
      = [ValueChange (Some (RangeV
            \<lparr>fromKey = Defined (civil 2024 2 5), toKey = Defined (civil 2024 2 10)\<rparr>))]
   \<and> (fst (handleSelect rangeProps (civil 2024 2 5)
        (hoverDays [civil 2024 2 12, civil 2024 2 3, civil 2024 2 7]
          (fst (handleSelect rangeProps (civil 2024 2 10) rangePanel)))))\<lparr>rangeHover := None\<rparr>
      = rangePanel\<lparr>rangeStart := Some (civil 2024 2 5), rangeEnd := Some (civil 2024 2 10),
                    isOpen := False\<rparr>"
  using hover_changes_preview_only
      [where days = "[civil 2024 2 12, civil 2024 2 3, civil 2024 2 7]"
         and s = "fst (handleSelect rangeProps (civil 2024 2 10) rangePanel)"
         and p = rangeProps and day = "civil 2024 2 5" and h = None]
    hover_changes_preview_only
      [where days = "[civil 2024 2 12, civil 2024 2 3, civil 2024 2 7]"
         and s = rangePanel and p = rangeProps and day = "civil 2024 2 5" and h = None]
  by (simp add: handleSelect_def handleDayHover_def initialState_def march_order
        callValueChange_def)

section \<open>The boundary markers\<close>

text \<open>
  C3, as the code has it. In range mode \<open>isRangeStart\<close> holds of a day exactly when a start
  is selected and the day is the same calendar day, and \<open>isRangeEnd\<close> exactly when an end
  is selected and the day is the same calendar day; outside range mode both are false. The
  hovered day is never consulted.
\<close>

theorem range_markers_committed:
  "(isRangeStart s day \<longleftrightarrow>
      isRangeMode s \<and> (\<exists>start. rangeStart s = Some start \<and> isSameDay day start))
   \<and> (isRangeEnd s day \<longleftrightarrow>
      isRangeMode s \<and> (\<exists>endDay. rangeEnd s = Some endDay \<and> isSameDay day endDay))
   \<and> isRangeStart (s\<lparr>rangeHover := h\<rparr>) day = isRangeStart s day
   \<and> isRangeEnd (s\<lparr>rangeHover := h\<rparr>) day = isRangeEnd s day"
  by (auto simp: isRangeStart_def isRangeEnd_def split: option.splits)

theorem range_markers_committed_witness:
  "isRangeStart (fst (handleSelect rangeProps (civil 2024 2 5)
       rangePanel)) (civil 2024 2 5)
   \<and> \<not> isRangeEnd (fst (handleSelect rangeProps (civil 2024 2 5)
       rangePanel)) (civil 2024 2 5)"
  using range_markers_committed
    [of "fst (handleSelect rangeProps (civil 2024 2 5)
       rangePanel)" "civil 2024 2 5"]
  by (simp add: handleSelect_def initialState_def isSameDay_def)

text \<open>
  C3, as the specification words it, fails: with 2024-03-05 as the start and the pointer on
  2024-03-10, the provisional end is 2024-03-10, and \<open>isRangeEnd\<close> is false of that day;
  with 2024-03-10 as the start and the pointer on 2024-03-05, the provisional start is
  2024-03-05, and \<open>isRangeStart\<close> is false of that day.
\<close>

theorem range_markers_counterexample:
  "rangeStart (handleDayHover (civil 2024 2 10)
      (fst (handleSelect rangeProps (civil 2024 2 5) rangePanel))) = Some (civil 2024 2 5)
   \<and> rangeEnd (handleDayHover (civil 2024 2 10)
      (fst (handleSelect rangeProps (civil 2024 2 5) rangePanel))) = None
   \<and> rangeHover (handleDayHover (civil 2024 2 10)
      (fst (handleSelect rangeProps (civil 2024 2 5) rangePanel))) = Some (civil 2024 2 10)
   \<and> specRangeEnd (handleDayHover (civil 2024 2 10)
      (fst (handleSelect rangeProps (civil 2024 2 5) rangePanel))) (civil 2024 2 10)
   \<and> \<not> isRangeEnd (handleDayHover (civil 2024 2 10)
      (fst (handleSelect rangeProps (civil 2024 2 5) rangePanel))) (civil 2024 2 10)
   \<and> specRangeStart (handleDayHover (civil 2024 2 5)
      (fst (handleSelect rangeProps (civil 2024 2 10) rangePanel))) (civil 2024 2 5)
   \<and> \<not> isRangeStart (handleDayHover (civil 2024 2 5)
      (fst (handleSelect rangeProps (civil 2024 2 10) rangePanel))) (civil 2024 2 5)"
  by (simp add: handleDayHover_def handleSelect_def initialState_def specRangeEnd_def
        specRangeStart_def isRangeEnd_def isRangeStart_def isSameDay_def march_order)

section \<open>The mode switch\<close>

lemma onCheckedChange_selections:
  "selections (fst (onCheckedChange p b s)) = selections s"
  by (simp add: onCheckedChange_def selections_def split: option.splits)

lemma onCheckedChange_isRangeMode:
  "isRangeMode (fst (onCheckedChange p b s)) = b"
  by (simp add: onCheckedChange_def split: option.splits)

text \<open>
  C4. With the \<open>duo\<close> mode prop, a flip of the switch sets the sub-mode and leaves the
  single value, both range endpoints and the hover as they were; so does a flip to range
  followed by a flip to single, and a flip to single followed by a flip to range.
\<close>

theorem mode_flip_keeps_selections:
  assumes "mode p = Duo"
  shows "selections (fst (setRangeMode p checked s)) = selections s
       \<and> isRangeMode (fst (setRangeMode p checked s)) = checked
       \<and> selections (fst (setRangeMode p False (fst (setRangeMode p True s)))) = selections s
       \<and> selections (fst (setRangeMode p True (fst (setRangeMode p False s)))) = selections s"
  using assms
  by (simp add: setRangeMode_def onCheckedChange_selections onCheckedChange_isRangeMode)

theorem mode_flip_keeps_selections_witness:
  "selections (fst (setRangeMode duoProps False (fst (setRangeMode duoProps True
       (duoPanel\<lparr>selectedDate := Some (DateV (civil 2024 0 1)),
                 rangeStart := Some (civil 2024 2 5),
                 rangeHover := Some (civil 2024 2 10)\<rparr>)))))
     = (Some (DateV (civil 2024 0 1)), Some (civil 2024 2 5), None, Some (civil 2024 2 10))
   \<and> isRangeMode (fst (setRangeMode duoProps True
       (duoPanel\<lparr>selectedDate := Some (DateV (civil 2024 0 1)),
                 rangeStart := Some (civil 2024 2 5),
                 rangeHover := Some (civil 2024 2 10)\<rparr>)))"
  using mode_flip_keeps_selections
    [of duoProps True "duoPanel\<lparr>selectedDate := Some (DateV (civil 2024 0 1)),
                 rangeStart := Some (civil 2024 2 5),
                 rangeHover := Some (civil 2024 2 10)\<rparr>"]
  by (simp add: selections_def initialState_def)

text \<open>
  What the flips report. With the \<open>duo\<close> mode prop and an \<open>onValueChange\<close> handler,
  flipping to range calls the handler once, with the range of both endpoints when both are
  selected and with \<open>undefined\<close> otherwise, and moves the cursor to the range start when
  there is one; flipping to single calls it once with \<open>selectedDate\<close> as it is stored.
\<close>

lemma setRangeMode_reports:
  assumes "mode p = Duo" and "onValueChange p"
  shows "(\<forall>start endDay. rangeStart s = Some start \<and> rangeEnd s = Some endDay \<longrightarrow>
            valueChanges (snd (setRangeMode p True s))
              = [Some (RangeV \<lparr>fromKey = Defined start, toKey = Defined endDay\<rparr>)])
       \<and> (rangeStart s = None \<or> rangeEnd s = None \<longrightarrow>
            valueChanges (snd (setRangeMode p True s)) = [None])
       \<and> (\<forall>start. rangeStart s = Some start \<longrightarrow>
            currentMonth (fst (setRangeMode p True s)) = DateV start)
       \<and> (rangeStart s = None \<longrightarrow>
            currentMonth (fst (setRangeMode p True s)) = currentMonth s)
       \<and> valueChanges (snd (setRangeMode p False s)) = [selectedDate s]"
  using assms
  by (auto simp: setRangeMode_def onCheckedChange_def callValueChange_def callModeChange_def
        split: option.splits)

text \<open>
  With 2024-01-01 selected and no range started: the flip to range reports \<open>undefined\<close>,
  the flip back reports 2024-01-01.
\<close>

lemma setRangeMode_reports_scenario:
  "selectedDate (fst (handleSelect duoProps (civil 2024 0 1) duoPanel))
     = Some (DateV (civil 2024 0 1))
   \<and> rangeStart (fst (handleSelect duoProps (civil 2024 0 1) duoPanel)) = None
   \<and> valueChanges (snd (setRangeMode duoProps True
        (fst (handleSelect duoProps (civil 2024 0 1) duoPanel)))) = [None]
   \<and> valueChanges (snd (setRangeMode duoProps False
        (fst (setRangeMode duoProps True
           (fst (handleSelect duoProps (civil 2024 0 1) duoPanel))))))
       = [Some (DateV (civil 2024 0 1))]"
  using setRangeMode_reports
      [of duoProps "fst (handleSelect duoProps (civil 2024 0 1) duoPanel)"]
    setRangeMode_reports
      [of duoProps "fst (setRangeMode duoProps True
           (fst (handleSelect duoProps (civil 2024 0 1) duoPanel)))"]
  by (simp add: handleSelect_def initialState_def setRangeMode_def onCheckedChange_def)

text \<open>
  C5 fails on the flip to single. A duo picker whose \<open>defaultValue\<close> is the range from
  2024-03-05 to 2024-03-10 keeps that range object in \<open>selectedDate\<close>; the flip to range
  reports \<open>undefined\<close>, and the flip back to single reports the range object, where the
  specification has nothing to report, no single value being stored.
\<close>

theorem mode_flip_emits_stored_range:
  "selectedDate duoRangePanel
     = Some (RangeV \<lparr>fromKey = Defined (civil 2024 2 5), toKey = Defined (civil 2024 2 10)\<rparr>)
   \<and> \<not> isRangeMode duoRangePanel
   \<and> valueChanges (snd (setRangeMode duoRangeProps True duoRangePanel)) = [None]
   \<and> valueChanges (snd (setRangeMode duoRangeProps False
         (fst (setRangeMode duoRangeProps True duoRangePanel))))
       = [Some (RangeV \<lparr>fromKey = Defined (civil 2024 2 5),
                        toKey = Defined (civil 2024 2 10)\<rparr>)]
   \<and> specSingleValue (fst (setRangeMode duoRangeProps True duoRangePanel)) = None"
  by (simp add: initialState_def setRangeMode_def onCheckedChange_def callValueChange_def
        callModeChange_def specSingleValue_def)

section \<open>Reset\<close>

text \<open>
  C9. Without an \<open>onReset\<close> handler \<open>handleReset\<close> changes nothing and calls nothing.
  With one, it clears the single value outside range mode, and the two endpoints and the
  hover in range mode, reports the empty value to \<open>onValueChange\<close> (\<open>undefined\<close>, or the
  range whose two keys are \<open>undefined\<close>) and then calls \<open>onReset\<close>.
\<close>

theorem reset_needs_handler:
  "(\<not> onReset p \<longrightarrow> handleReset p s = (s, []))
   \<and> (onReset p \<and> \<not> isRangeMode s \<longrightarrow>
        fst (handleReset p s) = s\<lparr>selectedDate := None\<rparr>
        \<and> snd (handleReset p s) = callValueChange p None @ [Reset])
   \<and> (onReset p \<and> isRangeMode s \<longrightarrow>
        fst (handleReset p s) = s\<lparr>rangeStart := None, rangeEnd := None, rangeHover := None\<rparr>
        \<and> snd (handleReset p s)
            = callValueChange p (Some (RangeV \<lparr>fromKey = Undefined, toKey = Undefined\<rparr>))
              @ [Reset])
   \<and> (onReset p \<and> onValueChange p \<longrightarrow>
        valueChanges (snd (handleReset p s))
          = [if isRangeMode s then Some (RangeV \<lparr>fromKey = Undefined, toKey = Undefined\<rparr>)
             else None])"
  by (simp add: handleReset_def callValueChange_def)

theorem reset_needs_handler_witness:
  "handleReset rangeProps (rangePanel\<lparr>rangeStart := Some (civil 2024 2 5)\<rparr>)
     = (rangePanel\<lparr>rangeStart := Some (civil 2024 2 5)\<rparr>, [])
   \<and> handleReset (rangeProps\<lparr>onReset := True\<rparr>)
        (rangePanel\<lparr>rangeStart := Some (civil 2024 2 5)\<rparr>)
     = (rangePanel,
        [ValueChange (Some (RangeV \<lparr>fromKey = Undefined, toKey = Undefined\<rparr>)), Reset])
   \<and> handleReset (duoProps\<lparr>onReset := True\<rparr>)
        (duoPanel\<lparr>selectedDate := Some (DateV (civil 2024 0 1))\<rparr>)
     = (duoPanel, [ValueChange None, Reset])"
  using reset_needs_handler
      [where p = rangeProps and s = "rangePanel\<lparr>rangeStart := Some (civil 2024 2 5)\<rparr>"]
    reset_needs_handler
      [where p = "rangeProps\<lparr>onReset := True\<rparr>"
         and s = "rangePanel\<lparr>rangeStart := Some (civil 2024 2 5)\<rparr>"]
    reset_needs_handler
      [where p = "duoProps\<lparr>onReset := True\<rparr>"
         and s = "duoPanel\<lparr>selectedDate := Some (DateV (civil 2024 0 1))\<rparr>"]
  by (simp add: initialState_def callValueChange_def prod_eq_iff)

section \<open>The controlled value\<close>

text \<open>
  C10. A \<open>Date\<close> as the \<open>value\<close> prop leaves the state as it is: its type is
  \<open>object\<close> and it has no \<open>from\<close> key. Whenever the effect changes the range start or the
  range end, the value is a range object with a \<open>from\<close> key.
\<close>

theorem syncValue_date_keeps_range:
  "syncValue (Some (DateV d)) s = s
   \<and> typeof (DateV d) = TObject \<and> \<not> hasFromKey (DateV d)
   \<and> (rangeStart (syncValue val s) \<noteq> rangeStart s \<or> rangeEnd (syncValue val s) \<noteq> rangeEnd s
        \<longrightarrow> (\<exists>r. val = Some (RangeV r) \<and> fromKey r \<noteq> Missing))"
proof -
  have "syncValue (Some (DateV d)) s = s"
    by (simp add: syncValue_def)
  moreover have "rangeStart (syncValue val s) \<noteq> rangeStart s
       \<or> rangeEnd (syncValue val s) \<noteq> rangeEnd s
     \<longrightarrow> (\<exists>r. val = Some (RangeV r) \<and> fromKey r \<noteq> Missing)"
  proof (cases val)
    case None
    then show ?thesis by (simp add: syncValue_def)
  next
    case (Some v)
    then show ?thesis by (cases v) (auto simp: syncValue_def)
  qed
  ultimately show ?thesis by simp
qed

theorem syncValue_date_keeps_range_witness:
  "syncValue (Some (DateV (civil 2024 0 1)))
      (rangePanel\<lparr>rangeStart := Some (civil 2024 2 5), rangeEnd := Some (civil 2024 2 10)\<rparr>)
     = rangePanel\<lparr>rangeStart := Some (civil 2024 2 5), rangeEnd := Some (civil 2024 2 10)\<rparr>
   \<and> rangeStart (syncValue
        (Some (RangeV \<lparr>fromKey = Defined (civil 2024 2 5), toKey = Defined (civil 2024 2 10)\<rparr>))
        rangePanel) = Some (civil 2024 2 5)
   \<and> rangeStart rangePanel = None
   \<and> (\<exists>r. Some (RangeV \<lparr>fromKey = Defined (civil 2024 2 5), toKey = Defined (civil 2024 2 10)\<rparr>)
             = Some (RangeV r) \<and> fromKey r \<noteq> Missing)"
  using syncValue_date_keeps_range
      [where d = "civil 2024 0 1"
         and s = "rangePanel\<lparr>rangeStart := Some (civil 2024 2 5),
                    rangeEnd := Some (civil 2024 2 10)\<rparr>"
         and val = "Some (DateV (civil 2024 0 1))"]
    syncValue_date_keeps_range
      [where d = "civil 2024 0 1" and s = rangePanel
         and val = "Some (RangeV \<lparr>fromKey = Defined (civil 2024 2 5),
                      toKey = Defined (civil 2024 2 10)\<rparr>)"]
  by (simp add: syncValue_def initialState_def)

end
